theory Spec2Isabelle
  imports
    Complex_Main
    "HOL-Library.AList"
    "HOL-Library.Char_ord"
    "HOL-Library.List_Lexorder"
begin

section \<open>Contextual workspace navigation: the decision helper\<close>

text \<open>
  A shallow embedding of \<^verbatim>\<open>scripts/contextual_workspace_nav.py\<close>. The script asks the compositor
  for its overview state and its windows, runs a primary action, asks for the windows again and
  decides whether a fallback action has to run.

  Every function of the script is a definition of the same name (without the leading
  underscore, which an Isabelle name cannot start with). What the script takes from Python's
  standard library is modelled in the first subsections: the values \<^verbatim>\<open>json.loads\<close> produces,
  their truth value, the equality \<^verbatim>\<open>==\<close>, dictionaries in insertion order, \<^verbatim>\<open>json.dumps\<close> and
  \<^verbatim>\<open>subprocess.run\<close>.
\<close>

subsection \<open>Python values as produced by the JSON decoder\<close>

text \<open>
  A Python \<^verbatim>\<open>float\<close> is a finite number (held by its exact value), the negative zero, or one
  of the three special values the decoder accepts. A \<^verbatim>\<open>str\<close> is a \<^typ>\<open>string\<close>: each character
  stands for the code point of the same number, so text with code points above 255 is outside
  the model. A \<^verbatim>\<open>dict\<close> is the list of its items in insertion order; its keys are pairwise
  distinct (\<open>wf_dict\<close> below), and every key is a \<^verbatim>\<open>str\<close>, as in every dictionary the decoder
  builds.
\<close>

datatype pyfloat = Fin rat | NegZero | NaN | PosInf | NegInf

datatype json =
    JNull
  | JBool bool
  | JInt int
  | JFloat pyfloat
  | JStr string
  | JList "json list"
  | JObj "(string \<times> json) list"

type_synonym pydict = "(string \<times> json) list"

type_synonym Window = pydict

type_synonym Identity = "(string \<times> json) list"

definition wf_dict :: "pydict \<Rightarrow> bool" where
  "wf_dict d = distinct (map fst d)"

text \<open>\<^verbatim>\<open>d.get(key)\<close>: the value stored under the key, \<^verbatim>\<open>None\<close> when the key is absent.\<close>

definition dict_get :: "pydict \<Rightarrow> string \<Rightarrow> json" where
  "dict_get d key = (case map_of d key of None \<Rightarrow> JNull | Some v \<Rightarrow> v)"

text \<open>
  \<^verbatim>\<open>d[key] = value\<close>: an existing key keeps its position and takes the new value, a new key is
  appended.
\<close>

definition dict_set :: "pydict \<Rightarrow> string \<Rightarrow> json \<Rightarrow> pydict" where
  "dict_set d key v = AList.update key v d"

text \<open>The truth value of a Python object, as \<^verbatim>\<open>if x:\<close> and \<^verbatim>\<open>not x\<close> take it.\<close>

fun truthy :: "json \<Rightarrow> bool" where
  "truthy JNull = False"
| "truthy (JBool b) = b"
| "truthy (JInt i) = (i \<noteq> 0)"
| "truthy (JFloat f) = (f \<noteq> Fin 0 \<and> f \<noteq> NegZero)"
| "truthy (JStr s) = (s \<noteq> [])"
| "truthy (JList xs) = (xs \<noteq> [])"
| "truthy (JObj d) = (d \<noteq> [])"

text \<open>
  The numeric value of an \<^verbatim>\<open>int\<close>, \<^verbatim>\<open>bool\<close> or finite \<^verbatim>\<open>float\<close>: \<^verbatim>\<open>bool\<close> is a subclass of
  \<^verbatim>\<open>int\<close> with \<^verbatim>\<open>True == 1\<close> and \<^verbatim>\<open>False == 0\<close>, and numbers of different types are compared
  by value.
\<close>

fun num_value :: "json \<Rightarrow> rat option" where
  "num_value (JBool b) = Some (if b then 1 else 0)"
| "num_value (JInt i) = Some (of_int i)"
| "num_value (JFloat (Fin q)) = Some q"
| "num_value (JFloat NegZero) = Some 0"
| "num_value _ = None"

text \<open>
  \<^verbatim>\<open>a == b\<close> as the comparison of two tuples, lists or dictionaries applies it to their
  elements. Containers compare elements with an identity shortcut, and the decoder returns
  one shared object for every \<^verbatim>\<open>NaN\<close>, so two decoded \<^verbatim>\<open>NaN\<close> are equal here. Dictionaries are
  equal when they have the same number of items and every key of the first has an equal
  value in the second.
\<close>

fun py_eq :: "json \<Rightarrow> json \<Rightarrow> bool"
  and py_eq_list :: "json list \<Rightarrow> json list \<Rightarrow> bool"
  and py_eq_items :: "pydict \<Rightarrow> pydict \<Rightarrow> bool"
where
  "py_eq JNull b = (b = JNull)"
| "py_eq (JStr s) b = (b = JStr s)"
| "py_eq (JBool x) b = (num_value b = Some (if x then 1 else 0))"
| "py_eq (JInt i) b = (num_value b = Some (of_int i))"
| "py_eq (JFloat (Fin q)) b = (num_value b = Some q)"
| "py_eq (JFloat NegZero) b = (num_value b = Some 0)"
| "py_eq (JFloat NaN) b = (b = JFloat NaN)"
| "py_eq (JFloat PosInf) b = (b = JFloat PosInf)"
| "py_eq (JFloat NegInf) b = (b = JFloat NegInf)"
| "py_eq (JList xs) b = (case b of JList ys \<Rightarrow> py_eq_list xs ys | _ \<Rightarrow> False)"
| "py_eq (JObj d) b =
     (case b of JObj e \<Rightarrow> length d = length e \<and> py_eq_items d e | _ \<Rightarrow> False)"
| "py_eq_list [] ys = (ys = [])"
| "py_eq_list (x # xs) ys =
     (case ys of [] \<Rightarrow> False | y # ys' \<Rightarrow> py_eq x y \<and> py_eq_list xs ys')"
| "py_eq_items [] e = True"
| "py_eq_items (kv # d) e =
     ((case map_of e (fst kv) of None \<Rightarrow> False | Some v' \<Rightarrow> py_eq (snd kv) v')
      \<and> py_eq_items d e)"

text \<open>Equality of two identity tuples: the same length, and equal names and values in turn.\<close>

fun identity_eq :: "Identity \<Rightarrow> Identity \<Rightarrow> bool" where
  "identity_eq [] ys = (ys = [])"
| "identity_eq (x # xs) ys =
     (case ys of [] \<Rightarrow> False
      | y # ys' \<Rightarrow> fst x = fst y \<and> py_eq (snd x) (snd y) \<and> identity_eq xs ys')"

subsection \<open>Strings\<close>

text \<open>\<^verbatim>\<open>s.startswith(p)\<close> and \<^verbatim>\<open>sub in s\<close>.\<close>

fun startswith :: "string \<Rightarrow> string \<Rightarrow> bool" where
  "startswith s [] = True"
| "startswith [] (p # ps) = False"
| "startswith (c # cs) (p # ps) = (c = p \<and> startswith cs ps)"

fun str_contains :: "string \<Rightarrow> string \<Rightarrow> bool" where
  "str_contains sub [] = (sub = [])"
| "str_contains sub (c # cs) = (startswith (c # cs) sub \<or> str_contains sub cs)"

text \<open>\<^verbatim>\<open>sep.join(parts)\<close>.\<close>

fun join :: "string \<Rightarrow> string list \<Rightarrow> string" where
  "join sep [] = []"
| "join sep [x] = x"
| "join sep (x # y # ys) = x @ sep @ join sep (y # ys)"

subsection \<open>The JSON encoder\<close>

text \<open>
  \<^verbatim>\<open>json.dumps(obj, sort_keys=True, allow_nan=True)\<close> with the default separators and
  \<^verbatim>\<open>ensure_ascii\<close>. Integers are written in decimal, strings are quoted and escaped, the
  items of a dictionary are written in the order of their keys. The decimal text of a finite
  float (\<^verbatim>\<open>float.__repr__\<close>) is a parameter of the encoder.
\<close>

fun digits :: "nat \<Rightarrow> string" where
  "digits n =
     (if n < 10 then [''0123456789'' ! n]
      else digits (n div 10) @ [''0123456789'' ! (n mod 10)])"

definition int_repr :: "int \<Rightarrow> string" where
  "int_repr i = (if i < 0 then CHR ''-'' # digits (nat (- i)) else digits (nat i))"

definition hexdigit :: "nat \<Rightarrow> char" where
  "hexdigit n = ''0123456789abcdef'' ! n"

definition esc_char :: "char \<Rightarrow> string" where
  "esc_char c =
     (if c = CHR 0x22 then [CHR 0x5C, CHR 0x22]
      else if c = CHR 0x5C then [CHR 0x5C, CHR 0x5C]
      else if c = CHR 0x0A then [CHR 0x5C, CHR ''n'']
      else if c = CHR 0x0D then [CHR 0x5C, CHR ''r'']
      else if c = CHR 0x09 then [CHR 0x5C, CHR ''t'']
      else if c = CHR 0x08 then [CHR 0x5C, CHR ''b'']
      else if c = CHR 0x0C then [CHR 0x5C, CHR ''f'']
      else if (of_char c :: nat) < 32 \<or> 126 < (of_char c :: nat)
        then [CHR 0x5C, CHR ''u'', CHR ''0'', CHR ''0'',
              hexdigit (of_char c div 16), hexdigit (of_char c mod 16)]
      else [c])"

definition encode_basestring_ascii :: "string \<Rightarrow> string" where
  "encode_basestring_ascii s = CHR 0x22 # concat (map esc_char s) @ [CHR 0x22]"

function dumps :: "(rat \<Rightarrow> string) \<Rightarrow> json \<Rightarrow> string"
  and dumps_list :: "(rat \<Rightarrow> string) \<Rightarrow> json list \<Rightarrow> string list"
  and dumps_items :: "(rat \<Rightarrow> string) \<Rightarrow> pydict \<Rightarrow> string list"
where
  "dumps fr JNull = ''null''"
| "dumps fr (JBool b) = (if b then ''true'' else ''false'')"
| "dumps fr (JInt i) = int_repr i"
| "dumps fr (JFloat (Fin q)) = fr q"
| "dumps fr (JFloat NegZero) = ''-0.0''"
| "dumps fr (JFloat NaN) = ''NaN''"
| "dumps fr (JFloat PosInf) = ''Infinity''"
| "dumps fr (JFloat NegInf) = ''-Infinity''"
| "dumps fr (JStr s) = encode_basestring_ascii s"
| "dumps fr (JList xs) = ''['' @ join '', '' (dumps_list fr xs) @ '']''"
| "dumps fr (JObj d) = ''{'' @ join '', '' (dumps_items fr (sort_key fst d)) @ ''}''"
| "dumps_list fr [] = []"
| "dumps_list fr (x # xs) = dumps fr x # dumps_list fr xs"
| "dumps_items fr [] = []"
| "dumps_items fr ((k, v) # d) =
     (encode_basestring_ascii k @ '': '' @ dumps fr v) # dumps_items fr d"
  by pat_completeness auto
termination
proof -
  have ins: "size_list f (insort_key g x xs) = Suc (f x + size_list f xs)"
    for f :: "string \<times> json \<Rightarrow> nat" and g :: "string \<times> json \<Rightarrow> string" and x xs
    by (induction xs) auto
  have srt: "size_list f (sort_key g xs) = size_list f xs"
    for f :: "string \<times> json \<Rightarrow> nat" and g :: "string \<times> json \<Rightarrow> string" and xs
    by (induction xs) (auto simp: ins)
  show ?thesis
    by (relation "measure (\<lambda>x. case x of
          Inl (fr, j) \<Rightarrow> 2 * size j + 1
        | Inr (Inl (fr, xs)) \<Rightarrow> 2 * size_list size xs
        | Inr (Inr (fr, d)) \<Rightarrow> 2 * size_list (size_prod (\<lambda>_. 0) size) d)")
       (auto simp: srt)
qed

subsection \<open>Processes and the compositor\<close>

text \<open>
  \<^verbatim>\<open>subprocess.run(command, check=True, ...)\<close> either cannot start the process (\<^verbatim>\<open>OSError\<close>)
  or completes with a return code and what the process wrote; with \<^verbatim>\<open>check=True\<close> a non-zero
  return code raises \<^verbatim>\<open>CalledProcessError\<close>. What the process wrote is text, or bytes that
  are not text in the encoding of the locale: with \<^verbatim>\<open>text=True, capture_output=True\<close> such
  bytes make \<^verbatim>\<open>subprocess.run\<close> raise \<^verbatim>\<open>UnicodeDecodeError\<close> while it collects the output,
  before it looks at the return code; a call that does not capture the output never decodes
  it. The compositor is a state of an arbitrary type \<open>'w\<close> that answers each command and moves
  on.

  \<^verbatim>\<open>json.loads\<close> is the second component of the host. It returns the decoded value, raises
  \<^verbatim>\<open>JSONDecodeError\<close>, or raises another exception: \<^verbatim>\<open>ValueError\<close> for an integer with more
  digits than the interpreter converts, \<^verbatim>\<open>RecursionError\<close> for text nested too deep.

  The state of a run holds the compositor and the log of what the script did to it, in order.
\<close>

datatype exn = UnicodeDecodeError | ValueError | RecursionError

datatype written = Text string | Undecodable

datatype proc_result = OSError | Completed int written

datatype loads_result = Decoded json | JSONDecodeError | Raises exn

datatype event = Spawn "string list" | Sleep

record 'w host =
  spawn :: "string list \<Rightarrow> 'w \<Rightarrow> proc_result \<times> 'w"
  loads :: "string \<Rightarrow> loads_result"
  float_repr :: "rat \<Rightarrow> string"

record 'w pstate =
  world :: 'w
  events :: "event list"

definition subprocess_run ::
  "'w host \<Rightarrow> string list \<Rightarrow> 'w pstate \<Rightarrow> proc_result \<times> 'w pstate" where
  "subprocess_run h command s =
     (case spawn h command (world s) of
        (r, w') \<Rightarrow> (r, \<lparr>world = w', events = events s @ [Spawn command]\<rparr>))"

definition sleep :: "'w pstate \<Rightarrow> 'w pstate" where
  "sleep s = s\<lparr>events := events s @ [Sleep]\<rparr>"

subsection \<open>The functions of the script\<close>

text \<open>
  A function that can let an exception escape returns \<open>Inl\<close> of the exception, and its caller
  passes it on, up to \<^verbatim>\<open>main\<close>.

  \<^verbatim>\<open>_run_niri_json\<close> returns the decoded output, or \<^verbatim>\<open>None\<close> on the errors it catches: the first
  \<^verbatim>\<open>try\<close> catches \<^verbatim>\<open>OSError\<close> and \<^verbatim>\<open>CalledProcessError\<close>, the second \<^verbatim>\<open>JSONDecodeError\<close>. Every
  other exception of the two calls escapes. Python's \<^verbatim>\<open>None\<close> is also what the decoder returns
  for the text \<^verbatim>\<open>null\<close>, and both are \<open>JNull\<close> here.
\<close>

definition run_niri_json ::
  "'w host \<Rightarrow> string list \<Rightarrow> 'w pstate \<Rightarrow> (exn + json) \<times> 'w pstate" where
  "run_niri_json h command s =
     (case subprocess_run h command s of
        (OSError, s') \<Rightarrow> (Inr JNull, s')
      | (Completed rc out, s') \<Rightarrow>
          (case out of
             Undecodable \<Rightarrow> (Inl UnicodeDecodeError, s')
           | Text stdout \<Rightarrow>
               if rc \<noteq> 0 then (Inr JNull, s')
               else (case loads h stdout of
                       JSONDecodeError \<Rightarrow> (Inr JNull, s')
                     | Decoded data \<Rightarrow> (Inr data, s')
                     | Raises e \<Rightarrow> (Inl e, s'))))"

text \<open>\<^verbatim>\<open>[w for w in data if isinstance(w, dict)]\<close>\<close>

fun dicts_of :: "json list \<Rightarrow> Window list" where
  "dicts_of [] = []"
| "dicts_of (JObj d # xs) = d # dicts_of xs"
| "dicts_of (_ # xs) = dicts_of xs"

definition collect_windows ::
  "'w host \<Rightarrow> 'w pstate \<Rightarrow> (exn + Window list) \<times> 'w pstate" where
  "collect_windows h s =
     (case run_niri_json h [''niri'', ''msg'', ''-j'', ''windows''] s of
        (Inl e, s') \<Rightarrow> (Inl e, s')
      | (Inr data, s') \<Rightarrow>
          (case data of
             JNull \<Rightarrow> (Inr [], s')
           | JList xs \<Rightarrow> (Inr (dicts_of xs), s')
           | JObj d \<Rightarrow>
               (case dict_get d ''windows'' of
                  JList xs \<Rightarrow> (Inr (dicts_of xs), s')
                | _ \<Rightarrow> (Inr [], s'))
           | _ \<Rightarrow> (Inr [], s')))"

definition run_action :: "'w host \<Rightarrow> string \<Rightarrow> 'w pstate \<Rightarrow> bool \<times> 'w pstate" where
  "run_action h action s =
     (case subprocess_run h [''niri'', ''msg'', ''action'', action] s of
        (OSError, s') \<Rightarrow> (False, s')
      | (Completed rc out, s') \<Rightarrow> (rc = 0, s'))"

definition overview_state ::
  "'w host \<Rightarrow> 'w pstate \<Rightarrow> (exn + pydict option) \<times> 'w pstate" where
  "overview_state h s =
     (case run_niri_json h [''niri'', ''msg'', ''-j'', ''overview-state''] s of
        (Inl e, s') \<Rightarrow> (Inl e, s')
      | (Inr data, s') \<Rightarrow> (case data of JObj d \<Rightarrow> (Inr (Some d), s') | _ \<Rightarrow> (Inr None, s')))"

definition overview_is_open ::
  "'w host \<Rightarrow> 'w pstate \<Rightarrow> (exn + bool option) \<times> 'w pstate" where
  "overview_is_open h s =
     (case overview_state h s of
        (Inl e, s') \<Rightarrow> (Inl e, s')
      | (Inr None, s') \<Rightarrow> (Inr None, s')
      | (Inr (Some state), s') \<Rightarrow>
          (case dict_get state ''is_open'' of
             JBool is_open \<Rightarrow> (Inr (Some is_open), s')
           | _ \<Rightarrow> (Inr None, s')))"

definition focused_window :: "Window list \<Rightarrow> Window option" where
  "focused_window windows = find (\<lambda>w. truthy (dict_get w ''is_focused'')) windows"

text \<open>\<^verbatim>\<open>isinstance(value, (str, int))\<close>; a \<^verbatim>\<open>bool\<close> is an instance of \<^verbatim>\<open>int\<close>.\<close>

fun isinstance_str_int :: "json \<Rightarrow> bool" where
  "isinstance_str_int (JStr s) = True"
| "isinstance_str_int (JInt i) = True"
| "isinstance_str_int (JBool b) = True"
| "isinstance_str_int _ = False"

definition candidate_keys :: "string list" where
  "candidate_keys =
     [''persistent_id'', ''window_id'', ''id'', ''surface_id'', ''toplevel_id'', ''wayland_id'']"

definition fallback_keys :: "string list" where
  "fallback_keys = [''workspace_id'', ''app_id'', ''title'', ''pid'']"

text \<open>The first loop of \<^verbatim>\<open>_window_identity\<close>: it stops at the first key with a scalar value.\<close>

fun first_scalar :: "Window \<Rightarrow> string list \<Rightarrow> Identity" where
  "first_scalar win [] = []"
| "first_scalar win (key # keys) =
     (let value = dict_get win key
      in if isinstance_str_int value then [(key, value)] else first_scalar win keys)"

definition window_identity :: "Window \<Rightarrow> Identity" where
  "window_identity win =
     (let parts = first_scalar win candidate_keys
      in if parts = [] then map (\<lambda>key. (key, dict_get win key)) fallback_keys else parts)"

definition window_snapshot :: "(rat \<Rightarrow> string) \<Rightarrow> Window \<Rightarrow> string" where
  "window_snapshot fr win =
     (let snapshot =
            [(''workspace_id'', dict_get win ''workspace_id''),
             (''layout'', dict_get win ''layout'')];
          snapshot =
            fold (\<lambda>(key, value) snapshot.
                    if str_contains ''column'' key then dict_set snapshot key value
                    else snapshot)
              win snapshot
      in dumps fr (JObj snapshot))"

definition find_window_by_identity :: "Window list \<Rightarrow> Identity \<Rightarrow> Window option" where
  "find_window_by_identity windows identity =
     find (\<lambda>win. identity_eq (window_identity win) identity) windows"

definition is_focus_action :: "string \<Rightarrow> bool" where
  "is_focus_action action = startswith action ''focus-''"

subsection \<open>The entry point\<close>

text \<open>
  The parsed command line. The diagnostics that \<^verbatim>\<open>--debug\<close> writes to the error stream are
  not part of the model: no decision reads them.
\<close>

datatype direction = Up | Down | Left | Right

record args =
  direction :: direction
  primary_action :: string
  fallback_action :: string
  overview_action :: "string option"
  debug :: bool

text \<open>\<^verbatim>\<open>args.overview_action or args.fallback_action\<close>\<close>

definition overview_or_fallback :: "args \<Rightarrow> string" where
  "overview_or_fallback a =
     (case overview_action a of
        None \<Rightarrow> fallback_action a
      | Some x \<Rightarrow> if x \<noteq> [] then x else fallback_action a)"

text \<open>\<^verbatim>\<open>return 0 if _run_action(action) else 1\<close>\<close>

definition return_action ::
  "'w host \<Rightarrow> string \<Rightarrow> 'w pstate \<Rightarrow> (exn + int) \<times> 'w pstate" where
  "return_action h action s =
     (case run_action h action s of (ok, s') \<Rightarrow> (Inr (if ok then 0 else 1), s'))"

text \<open>
  \<^verbatim>\<open>main\<close> returns the exit code it hands to \<^verbatim>\<open>sys.exit\<close>, or the exception that escaped, and
  the final state. \<^verbatim>\<open>not focused_before\<close> and \<^verbatim>\<open>not focused_after\<close> hold for \<^verbatim>\<open>None\<close> and for an
  empty dictionary.
\<close>

definition main :: "'w host \<Rightarrow> args \<Rightarrow> 'w pstate \<Rightarrow> (exn + int) \<times> 'w pstate" where
  "main h a s0 =
     (case overview_is_open h s0 of
        (Inl e, s1) \<Rightarrow> (Inl e, s1)
      | (Inr overview_open, s1) \<Rightarrow>
      if overview_open = Some True then return_action h (overview_or_fallback a) s1
      else
      (case collect_windows h s1 of
         (Inl e, s2) \<Rightarrow> (Inl e, s2)
       | (Inr windows_before, s2) \<Rightarrow>
       if windows_before = [] then return_action h (fallback_action a) s2
       else
       (case focused_window windows_before of
          None \<Rightarrow> return_action h (fallback_action a) s2
        | Some focused_before \<Rightarrow>
            if focused_before = [] then return_action h (fallback_action a) s2
            else if truthy (dict_get focused_before ''is_floating'')
              then return_action h (fallback_action a) s2
            else
            (let focused_identity = window_identity focused_before;
                 before_snapshot = window_snapshot (float_repr h) focused_before;
                 primary_is_focus = is_focus_action (primary_action a)
             in
             (case run_action h (primary_action a) s2 of (ok, s3) \<Rightarrow>
              if \<not> ok then (Inr 1, s3)
              else
              (case collect_windows h (sleep s3) of
                 (Inl e, s4) \<Rightarrow> (Inl e, s4)
               | (Inr windows_after, s4) \<Rightarrow>
               if windows_after = [] then (Inr 1, s4)
               else
               (let fallback_needed =
                      (if primary_is_focus then
                         (case focused_window windows_after of
                            None \<Rightarrow> True
                          | Some focused_after \<Rightarrow>
                              focused_after = []
                              \<or> identity_eq (window_identity focused_after) focused_identity)
                       else
                         (case find_window_by_identity windows_after focused_identity of
                            None \<Rightarrow> False
                          | Some moved_window \<Rightarrow>
                              window_snapshot (float_repr h) moved_window = before_snapshot))
                in if fallback_needed then return_action h (fallback_action a) s4
                   else (Inr 0, s4))))))))"

text \<open>
  The exit status of the process: \<^verbatim>\<open>sys.exit(main())\<close> passes the returned code on, and an
  exception that nothing catches ends the interpreter with status 1.
\<close>

definition exit_status :: "exn + int \<Rightarrow> int" where
  "exit_status res = (case res of Inl e \<Rightarrow> 1 | Inr code \<Rightarrow> code)"

subsection \<open>Notions used to state the properties\<close>

text \<open>The three command lines the script sends to the compositor.\<close>

definition overview_command :: "string list" where
  "overview_command = [''niri'', ''msg'', ''-j'', ''overview-state'']"

definition windows_command :: "string list" where
  "windows_command = [''niri'', ''msg'', ''-j'', ''windows'']"

definition action_command :: "string \<Rightarrow> string list" where
  "action_command action = [''niri'', ''msg'', ''action'', action]"



text \<open>
  The specification's \<^verbatim>\<open>queryWindows() \<rightarrow> list<Window> | Unavailable\<close>, as a function of what the
  process returned: unavailable on a launch failure, a non-zero exit, output that is not
  text or not JSON the decoder takes, or a shape that is neither a list nor an object with a
  list under \<^verbatim>\<open>windows\<close>; it never raises. It is compared with \<open>collect_windows\<close> below
  (\<open>collect_windows_spec\<close>).
\<close>

definition queryWindows_spec :: "'w host \<Rightarrow> proc_result \<Rightarrow> Window list option" where
  "queryWindows_spec h r =
     (case r of
        OSError \<Rightarrow> None
      | Completed rc out \<Rightarrow>
          (case out of
             Undecodable \<Rightarrow> None
           | Text stdout \<Rightarrow>
               if rc \<noteq> 0 then None
               else (case loads h stdout of
                       Decoded (JList xs) \<Rightarrow> Some (dicts_of xs)
                     | Decoded (JObj d) \<Rightarrow>
                         (case dict_get d ''windows'' of
                            JList xs \<Rightarrow> Some (dicts_of xs)
                          | _ \<Rightarrow> None)
                     | _ \<Rightarrow> None)))"

text \<open>
  The exception that \<^verbatim>\<open>_run_niri_json\<close> lets escape on a reply, if any: the output is not
  text, or the process exited with 0 and the decoder raised something other than
  \<^verbatim>\<open>JSONDecodeError\<close>.
\<close>

definition escaping :: "'w host \<Rightarrow> proc_result \<Rightarrow> exn option" where
  "escaping h r =
     (case r of
        OSError \<Rightarrow> None
      | Completed rc out \<Rightarrow>
          (case out of
             Undecodable \<Rightarrow> Some UnicodeDecodeError
           | Text stdout \<Rightarrow>
               if rc \<noteq> 0 then None
               else (case loads h stdout of Raises e \<Rightarrow> Some e | _ \<Rightarrow> None)))"

text \<open>
  Every dictionary inside a decoded value has pairwise distinct keys, as a Python \<^verbatim>\<open>dict\<close> has.
\<close>

fun wf_json :: "json \<Rightarrow> bool" where
  "wf_json (JList xs) = list_all wf_json xs"
| "wf_json (JObj d) = (distinct (map fst d) \<and> list_all (\<lambda>kv. wf_json (snd kv)) d)"
| "wf_json _ = True"

text \<open>
  The specification's reading of a scalar identifier: text or an integer. It is compared with
  \<open>isinstance_str_int\<close> below.
\<close>

definition is_text_or_integer :: "json \<Rightarrow> bool" where
  "is_text_or_integer v = (case v of JStr s \<Rightarrow> True | JInt i \<Rightarrow> True | _ \<Rightarrow> False)"

subsection \<open>A scripted compositor for examples\<close>

text \<open>
  The compositor of the examples answers the commands it receives with the replies of a
  script, in order, and cannot start a process once the script is used up. Its decoder knows
  five texts and raises \<^verbatim>\<open>ValueError\<close> on a sixth.
\<close>

definition scripted_spawn ::
  "string list \<Rightarrow> proc_result list \<Rightarrow> proc_result \<times> proc_result list" where
  "scripted_spawn command w = (case w of [] \<Rightarrow> (OSError, []) | r # rs \<Rightarrow> (r, rs))"

definition win7 :: Window where
  "win7 = [(''id'', JInt 7), (''is_focused'', JBool True), (''workspace_id'', JInt 1),
           (''column_index'', JInt 2)]"

definition win8 :: Window where
  "win8 = [(''id'', JInt 8), (''is_focused'', JBool True), (''workspace_id'', JInt 1),
           (''column_index'', JInt 3)]"

definition demo_loads :: "string \<Rightarrow> loads_result" where
  "demo_loads out =
     (if out = ''open'' then Decoded (JObj [(''is_open'', JBool True)])
      else if out = ''closed'' then Decoded (JObj [(''is_open'', JBool False)])
      else if out = ''seven'' then Decoded (JList [JObj win7])
      else if out = ''eight'' then Decoded (JList [JObj win8])
      else if out = ''moved''
        then Decoded (JList [JObj (dict_set win7 ''column_index'' (JInt 3))])
      else if out = ''huge'' then Raises ValueError
      else JSONDecodeError)"

definition demo_host :: "proc_result list host" where
  "demo_host = \<lparr>spawn = scripted_spawn, loads = demo_loads, float_repr = (\<lambda>q. ''0.0'')\<rparr>"

definition demo_args :: "string \<Rightarrow> args" where
  "demo_args primary =
     \<lparr>direction = Up, primary_action = primary, fallback_action = ''focus-workspace-up'',
      overview_action = None, debug = False\<rparr>"

definition start :: "proc_result list \<Rightarrow> proc_result list pstate" where
  "start script = \<lparr>world = script, events = []\<rparr>"

text \<open>
  A window whose first identifier is a boolean, and two windows that hold the same layout
  fields in a different order.
\<close>

definition bool_id_window :: Window where
  "bool_id_window = [(''persistent_id'', JBool True), (''window_id'', JInt 5)]"

definition shuffled_a :: Window where
  "shuffled_a = [(''id'', JInt 7), (''column_index'', JInt 2), (''workspace_id'', JInt 1),
                 (''column_width'', JInt 3)]"

definition shuffled_b :: Window where
  "shuffled_b = [(''column_width'', JInt 3), (''title'', JStr ''term''),
                 (''column_index'', JInt 2), (''workspace_id'', JInt 1), (''layout'', JNull)]"

section \<open>Properties\<close>

lemmas demo_defs = demo_host_def scripted_spawn_def demo_loads_def demo_args_def start_def
  win7_def win8_def overview_command_def windows_command_def action_command_def

lemmas io_defs = subprocess_run_def run_niri_json_def collect_windows_def run_action_def
  overview_state_def overview_is_open_def return_action_def sleep_def dict_get_def

subsection \<open>What each call adds to the log\<close>

lemma subprocess_run_state:
  "subprocess_run h command s = (r, s') \<Longrightarrow>
     s' = \<lparr>world = snd (spawn h command (world s)), events = events s @ [Spawn command]\<rparr>
     \<and> r = fst (spawn h command (world s))"
  by (auto simp: subprocess_run_def split: prod.splits)

lemma run_niri_json_events:
  "run_niri_json h command s = (res, s') \<Longrightarrow> events s' = events s @ [Spawn command]"
  by (auto simp: run_niri_json_def subprocess_run_def
      split: prod.splits proc_result.splits written.splits if_splits loads_result.splits)

lemma collect_windows_events:
  "collect_windows h s = (res, s') \<Longrightarrow> events s' = events s @ [Spawn windows_command]"
  by (auto simp: collect_windows_def windows_command_def
      split: prod.splits sum.splits json.splits dest: run_niri_json_events)

lemma run_action_events:
  "run_action h action s = (ok, s') \<Longrightarrow> events s' = events s @ [Spawn (action_command action)]"
  by (auto simp: run_action_def action_command_def subprocess_run_def
      split: prod.splits proc_result.splits)


lemma overview_is_open_events:
  "overview_is_open h s = (res, s') \<Longrightarrow> events s' = events s @ [Spawn overview_command]"
  by (auto simp: overview_is_open_def overview_state_def overview_command_def
      split: prod.splits sum.splits json.splits option.splits dest: run_niri_json_events)



lemma collect_windows_spec:
  "collect_windows h s =
     (case escaping h (fst (spawn h windows_command (world s))) of
        Some e \<Rightarrow> Inl e
      | None \<Rightarrow>
          Inr (case queryWindows_spec h (fst (spawn h windows_command (world s))) of
                 None \<Rightarrow> [] | Some ws \<Rightarrow> ws),
      \<lparr>world = snd (spawn h windows_command (world s)),
       events = events s @ [Spawn windows_command]\<rparr>)"
  by (simp add: collect_windows_def run_niri_json_def subprocess_run_def windows_command_def
      queryWindows_spec_def escaping_def
      split: prod.splits proc_result.splits written.splits loads_result.splits json.splits)

lemma queryWindows_spec_Some:
  "queryWindows_spec h r = Some ws \<Longrightarrow> escaping h r = None"
  by (auto simp: queryWindows_spec_def escaping_def
      split: proc_result.splits written.splits loads_result.splits json.splits if_splits)

lemma escaping_unavailable:
  "escaping h r = Some e \<Longrightarrow> queryWindows_spec h r = None"
  by (auto simp: queryWindows_spec_def escaping_def
      split: proc_result.splits written.splits loads_result.splits json.splits if_splits)

lemma run_action_spawn:
  "run_action h action s =
     (case fst (spawn h (action_command action) (world s)) of
        OSError \<Rightarrow> False | Completed rc out \<Rightarrow> rc = 0,
      \<lparr>world = snd (spawn h (action_command action) (world s)),
       events = events s @ [Spawn (action_command action)]\<rparr>)"
  by (simp add: run_action_def subprocess_run_def action_command_def
      split: prod.splits proc_result.splits)

lemma focused_window_Some:
  "focused_window ws = Some w \<Longrightarrow>
     ws \<noteq> [] \<and> w \<noteq> [] \<and> w \<in> set ws \<and> truthy (dict_get w ''is_focused'')"
  by (auto simp: focused_window_def find_Some_iff dict_get_def)

lemma main_primary_path:
  assumes "overview_is_open h s0 = (Inr ov, s1)" and "ov \<noteq> Some True"
    and "collect_windows h s1 = (Inr wb, s2)"
    and "focused_window wb = Some fb"
    and "\<not> truthy (dict_get fb ''is_floating'')"
  shows "main h a s0 =
     (case run_action h (primary_action a) s2 of (ok, s3) \<Rightarrow>
        if \<not> ok then (Inr 1, s3)
        else (case collect_windows h (sleep s3) of
          (Inl e, s4) \<Rightarrow> (Inl e, s4)
        | (Inr wa, s4) \<Rightarrow>
          if wa = [] then (Inr 1, s4)
          else if (if is_focus_action (primary_action a) then
                     (case focused_window wa of
                        None \<Rightarrow> True
                      | Some fa \<Rightarrow> identity_eq (window_identity fa) (window_identity fb))
                   else
                     (case find_window_by_identity wa (window_identity fb) of
                        None \<Rightarrow> False
                      | Some mw \<Rightarrow>
                          window_snapshot (float_repr h) mw = window_snapshot (float_repr h) fb))
               then return_action h (fallback_action a) s4
               else (Inr 0, s4)))"
  using assms focused_window_Some[of wb fb]
  by (auto simp: main_def Let_def split: prod.splits sum.splits option.splits
      dest: focused_window_Some)

lemma return_action_spawn:
  "return_action h action s =
     (Inr (case fst (spawn h (action_command action) (world s)) of
             OSError \<Rightarrow> 1 | Completed rc out \<Rightarrow> if rc = 0 then 0 else 1),
      \<lparr>world = snd (spawn h (action_command action) (world s)),
       events = events s @ [Spawn (action_command action)]\<rparr>)"
  by (simp add: return_action_def run_action_spawn split: proc_result.splits)

lemma find_append_first:
  "\<forall>u\<in>set pre. \<not> P u \<Longrightarrow> P x \<Longrightarrow> find P (pre @ x # post) = Some x"
  by (induction pre) auto

subsection \<open>The overview short-circuit\<close>




text \<open>
  C10. An overview action given as the empty string behaves as an absent one, in every run;
  when the overview is open, the fallback action is run in its place.
\<close>

theorem empty_overview_action_is_absent:
  "main h (a\<lparr>overview_action := Some []\<rparr>) s = main h (a\<lparr>overview_action := None\<rparr>) s
   \<and> (\<forall>s1. overview_is_open h s = (Inr (Some True), s1) \<longrightarrow>
         main h (a\<lparr>overview_action := Some []\<rparr>) s = return_action h (fallback_action a) s1)"
  by (simp add: main_def overview_or_fallback_def Let_def
      split: prod.splits sum.splits option.splits)

theorem empty_overview_action_is_absent_witness:
  "main demo_host ((demo_args ''focus-window-up'')\<lparr>overview_action := Some []\<rparr>)
       (start [Completed 0 (Text ''open''), Completed 0 (Text [])]) =
     (Inr 0, \<lparr>world = [], events = [Spawn overview_command, Spawn (action_command ''focus-workspace-up'')]\<rparr>)"
proof -
  have o: "overview_is_open demo_host (start [Completed 0 (Text ''open''), Completed 0 (Text [])]) =
      (Inr (Some True), \<lparr>world = [Completed 0 (Text [])], events = [Spawn overview_command]\<rparr>)"
    by (simp add: demo_defs io_defs)
  have ra: "return_action demo_host (fallback_action (demo_args ''focus-window-up''))
       \<lparr>world = [Completed 0 (Text [])], events = [Spawn overview_command]\<rparr> =
       (Inr 0, \<lparr>world = [], events = [Spawn overview_command, Spawn (action_command ''focus-workspace-up'')]\<rparr>)"
    by (simp add: demo_defs io_defs)
  have "main demo_host ((demo_args ''focus-window-up'')\<lparr>overview_action := Some []\<rparr>)
       (start [Completed 0 (Text ''open''), Completed 0 (Text [])]) =
     return_action demo_host (fallback_action (demo_args ''focus-window-up''))
       \<lparr>world = [Completed 0 (Text [])], events = [Spawn overview_command]\<rparr>"
    using empty_overview_action_is_absent[of demo_host "demo_args ''focus-window-up''"
        "start [Completed 0 (Text ''open''), Completed 0 (Text [])]"] o
    by blast
  then show ?thesis using ra by simp
qed

subsection \<open>Failure of the primary action\<close>

text \<open>
  C4. On the path that reaches the primary action (overview not open, a focused window that
  is not floating), if the process of the primary action cannot be started or exits with a
  non-zero code, \<^verbatim>\<open>main\<close> returns 1 at once: the log ends with the primary action, so there is
  no second window query and no fallback action.
\<close>

theorem primary_failure_is_fatal:
  assumes "overview_is_open h s0 = (Inr ov, s1)" and "ov \<noteq> Some True"
    and "collect_windows h s1 = (Inr wb, s2)"
    and "focused_window wb = Some fb"
    and "\<not> truthy (dict_get fb ''is_floating'')"
    and "spawn h (action_command (primary_action a)) (world s2) = (r, w3)"
    and "r = OSError \<or> (\<exists>rc out. r = Completed rc out \<and> rc \<noteq> 0)"
  shows "main h a s0 =
           (Inr 1, \<lparr>world = w3, events = events s2 @ [Spawn (action_command (primary_action a))]\<rparr>)
       \<and> events (snd (main h a s0)) =
           events s0 @ [Spawn overview_command, Spawn windows_command,
                        Spawn (action_command (primary_action a))]"
proof -
  have ra: "run_action h (primary_action a) s2 =
      (False, \<lparr>world = w3, events = events s2 @ [Spawn (action_command (primary_action a))]\<rparr>)"
    using assms(6,7) by (auto simp: run_action_spawn)
  have m: "main h a s0 =
      (Inr 1, \<lparr>world = w3, events = events s2 @ [Spawn (action_command (primary_action a))]\<rparr>)"
    by (simp add: main_primary_path[OF assms(1-5)] ra)
  have e1: "events s1 = events s0 @ [Spawn overview_command]"
    using assms(1) by (rule overview_is_open_events)
  have e2: "events s2 = events s1 @ [Spawn windows_command]"
    using assms(3) by (rule collect_windows_events)
  show ?thesis using m e1 e2 by simp
qed

theorem primary_failure_is_fatal_witness:
  "main demo_host (demo_args ''focus-window-up'')
       (start [Completed 0 (Text ''closed''), Completed 0 (Text ''seven''), Completed 1 (Text []), Completed 0 (Text [])]) =
     (Inr 1, \<lparr>world = [Completed 0 (Text [])],
          events = [Spawn overview_command, Spawn windows_command,
                    Spawn (action_command ''focus-window-up'')]\<rparr>)"
proof -
  let ?s0 = "start [Completed 0 (Text ''closed''), Completed 0 (Text ''seven''), Completed 1 (Text []), Completed 0 (Text [])]"
  let ?s1 = "\<lparr>world = [Completed 0 (Text ''seven''), Completed 1 (Text []), Completed 0 (Text [])],
              events = [Spawn overview_command]\<rparr>"
  let ?s2 = "\<lparr>world = [Completed 1 (Text []), Completed 0 (Text [])],
              events = [Spawn overview_command, Spawn windows_command]\<rparr>"
  have h1: "overview_is_open demo_host ?s0 = (Inr (Some False), ?s1)"
    by (simp add: demo_defs io_defs)
  have h2: "Some False \<noteq> Some True" by simp
  have h3: "collect_windows demo_host ?s1 = (Inr [win7], ?s2)"
    by (simp add: demo_defs io_defs)
  have h4: "focused_window [win7] = Some win7"
    by (simp add: focused_window_def win7_def dict_get_def)
  have h5: "\<not> truthy (dict_get win7 ''is_floating'')"
    by (simp add: win7_def dict_get_def)
  have h6: "spawn demo_host (action_command (primary_action (demo_args ''focus-window-up''))) (world ?s2)
      = (Completed 1 (Text []), [Completed 0 (Text [])])"
    by (simp add: demo_defs)
  have h7: "Completed 1 (Text []) = OSError \<or> (\<exists>rc out. Completed 1 (Text []) = Completed rc out \<and> rc \<noteq> 0)"
    by simp
  show ?thesis
    using primary_failure_is_fatal[OF h1 h2 h3 h4 h5 h6 h7]
    by (simp add: demo_args_def)
qed

subsection \<open>An empty or unavailable window query\<close>

text \<open>
  On a first window query that is unavailable through a failure \<^verbatim>\<open>_run_niri_json\<close> catches (the
  process cannot be started, exits with a non-zero code, writes text the decoder rejects with
  \<^verbatim>\<open>JSONDecodeError\<close> or JSON of an unexpected shape), or that yields no window, \<^verbatim>\<open>main\<close> runs the
  fallback action and nothing else: the log holds the two queries and the fallback action,
  and the exit code is 0 when the fallback action's process exits with 0 and 1 otherwise.
\<close>

lemma caught_empty_before_runs_fallback:
  assumes "overview_is_open h s0 = (Inr ov, s1)" and "ov \<noteq> Some True"
    and "spawn h windows_command (world s1) = (r, w2)"
    and "queryWindows_spec h r = None \<or> queryWindows_spec h r = Some []"
    and "escaping h r = None"
  shows "main h a s0 =
           return_action h (fallback_action a)
             \<lparr>world = w2, events = events s1 @ [Spawn windows_command]\<rparr>
       \<and> events (snd (main h a s0)) =
           events s0 @ [Spawn overview_command, Spawn windows_command,
                        Spawn (action_command (fallback_action a))]
       \<and> fst (main h a s0) =
           Inr (case fst (spawn h (action_command (fallback_action a)) w2) of
                  OSError \<Rightarrow> 1
                | Completed rc out \<Rightarrow> if rc = 0 then 0 else 1)"
proof -
  let ?s2 = "\<lparr>world = w2, events = events s1 @ [Spawn windows_command]\<rparr>"
  have cw: "collect_windows h s1 = (Inr [], ?s2)"
    using assms(3,4,5) by (auto simp: collect_windows_spec)
  have m: "main h a s0 = return_action h (fallback_action a) ?s2"
    using assms(1,2) cw by (simp add: main_def)
  have e1: "events s1 = events s0 @ [Spawn overview_command]"
    using assms(1) by (rule overview_is_open_events)
  show ?thesis using m e1 by (simp add: return_action_spawn)
qed

lemma caught_empty_before_runs_fallback_example:
  "main demo_host (demo_args ''focus-window-up'')
       (start [Completed 0 (Text ''closed''), OSError, Completed 0 (Text [])]) =
     (Inr 0, \<lparr>world = [],
          events = [Spawn overview_command, Spawn windows_command,
                    Spawn (action_command ''focus-workspace-up'')]\<rparr>)"
proof -
  let ?s0 = "start [Completed 0 (Text ''closed''), OSError, Completed 0 (Text [])]"
  let ?s1 = "\<lparr>world = [OSError, Completed 0 (Text [])], events = [Spawn overview_command]\<rparr>"
  have h1: "overview_is_open demo_host ?s0 = (Inr (Some False), ?s1)"
    by (simp add: demo_defs io_defs)
  have h2: "Some False \<noteq> Some True" by simp
  have h3: "spawn demo_host windows_command (world ?s1) = (OSError, [Completed 0 (Text [])])"
    by (simp add: demo_defs)
  have h4: "queryWindows_spec demo_host OSError = None
      \<or> queryWindows_spec demo_host OSError = Some []"
    by (simp add: queryWindows_spec_def)
  have h5: "escaping demo_host OSError = None"
    by (simp add: escaping_def)
  have ra: "return_action demo_host ''focus-workspace-up''
       \<lparr>world = [Completed 0 (Text [])], events = [Spawn overview_command, Spawn windows_command]\<rparr> =
       (Inr 0, \<lparr>world = [], events = [Spawn overview_command, Spawn windows_command,
                    Spawn (action_command ''focus-workspace-up'')]\<rparr>)"
    by (simp add: demo_defs io_defs)
  show ?thesis
    using caught_empty_before_runs_fallback[OF h1 h2 h3 h4 h5, of "demo_args ''focus-window-up''"] ra
    by (simp add: demo_args_def)
qed

text \<open>
  On a first window query whose reply makes \<^verbatim>\<open>_run_niri_json\<close> let an exception escape, \<^verbatim>\<open>main\<close>
  ends with that exception right after the query: no action is run. The specification counts
  such a reply as unavailable.
\<close>

lemma before_query_exception_escapes:
  assumes "overview_is_open h s0 = (Inr ov, s1)" and "ov \<noteq> Some True"
    and "spawn h windows_command (world s1) = (r, w2)"
    and "escaping h r = Some e"
  shows "main h a s0 = (Inl e, \<lparr>world = w2, events = events s1 @ [Spawn windows_command]\<rparr>)
       \<and> queryWindows_spec h r = None"
proof -
  have cw: "collect_windows h s1 =
      (Inl e, \<lparr>world = w2, events = events s1 @ [Spawn windows_command]\<rparr>)"
    using assms(3,4) by (simp add: collect_windows_spec)
  show ?thesis
    using assms(1,2) cw escaping_unavailable[OF assms(4)] by (simp add: main_def)
qed

text \<open>
  C7 (a defect of the script). The claim: when the overview is not open and the first window
  query is empty or unavailable (query failure, malformed JSON, unexpected shape), the
  fallback action is run. The script does not do so on two replies that \<^verbatim>\<open>_run_niri_json\<close>,
  whose docstring says it returns \<^verbatim>\<open>None\<close> on error, does not catch: output that is not text,
  and text on which the decoder raises \<^verbatim>\<open>ValueError\<close>. Both are unavailable for the
  specification; in both runs the log ends with the window query, the fallback action is
  not run, and the process ends with the exception, at status 1.
\<close>

theorem undecodable_before_reply_escapes:
  "queryWindows_spec demo_host (Completed 0 Undecodable) = None
   \<and> main demo_host (demo_args ''focus-window-up'')
       (start [Completed 0 (Text ''closed''), Completed 0 Undecodable, Completed 0 (Text [])]) =
     (Inl UnicodeDecodeError,
      \<lparr>world = [Completed 0 (Text [])],
        events = [Spawn overview_command, Spawn windows_command]\<rparr>)
   \<and> queryWindows_spec demo_host (Completed 0 (Text ''huge'')) = None
   \<and> main demo_host (demo_args ''focus-window-up'')
       (start [Completed 0 (Text ''closed''), Completed 0 (Text ''huge''), Completed 0 (Text [])]) =
     (Inl ValueError,
      \<lparr>world = [Completed 0 (Text [])],
        events = [Spawn overview_command, Spawn windows_command]\<rparr>)
   \<and> exit_status (Inl UnicodeDecodeError) = 1 \<and> exit_status (Inl ValueError) = 1"
proof -
  let ?s0 = "\<lambda>r. start [Completed 0 (Text ''closed''), r, Completed 0 (Text [])]"
  let ?s1 = "\<lambda>r. \<lparr>world = [r, Completed 0 (Text [])], events = [Spawn overview_command]\<rparr>"
  have h1: "overview_is_open demo_host (?s0 r) = (Inr (Some False), ?s1 r)" for r
    by (simp add: demo_defs io_defs)
  have h2: "Some False \<noteq> Some True" by simp
  have h3: "spawn demo_host windows_command (world (?s1 r)) = (r, [Completed 0 (Text [])])" for r
    by (simp add: demo_defs)
  have e1: "escaping demo_host (Completed 0 Undecodable) = Some UnicodeDecodeError"
    by (simp add: escaping_def)
  have e2: "escaping demo_host (Completed 0 (Text ''huge'')) = Some ValueError"
    by (simp add: escaping_def demo_defs)
  show ?thesis
    using before_query_exception_escapes[OF h1 h2 h3 e1, of "demo_args ''focus-window-up''"]
      before_query_exception_escapes[OF h1 h2 h3 e2, of "demo_args ''focus-window-up''"]
    by (simp add: exit_status_def)
qed

text \<open>
  C8. When the primary action has run successfully and the second window query is
  unavailable or yields no window, the process ends with status 1 and the log ends with that
  query: the fallback action is not run. \<^verbatim>\<open>main\<close> returns 1, except on a reply that makes
  \<^verbatim>\<open>_run_niri_json\<close> let an exception escape, where the process ends with that exception.
\<close>

theorem empty_after_is_failure:
  assumes "overview_is_open h s0 = (Inr ov, s1)" and "ov \<noteq> Some True"
    and "collect_windows h s1 = (Inr wb, s2)"
    and "focused_window wb = Some fb"
    and "\<not> truthy (dict_get fb ''is_floating'')"
    and "run_action h (primary_action a) s2 = (True, s3)"
    and "spawn h windows_command (world s3) = (r, w4)"
    and "queryWindows_spec h r = None \<or> queryWindows_spec h r = Some []"
  shows "main h a s0 =
           (case escaping h r of None \<Rightarrow> Inr 1 | Some e \<Rightarrow> Inl e,
            \<lparr>world = w4, events = events s3 @ [Sleep, Spawn windows_command]\<rparr>)
       \<and> exit_status (fst (main h a s0)) = 1
       \<and> events (snd (main h a s0)) =
           events s0 @ [Spawn overview_command, Spawn windows_command,
                        Spawn (action_command (primary_action a)), Sleep,
                        Spawn windows_command]"
proof -
  let ?s4 = "\<lparr>world = w4, events = events s3 @ [Sleep, Spawn windows_command]\<rparr>"
  have cw: "collect_windows h (sleep s3) =
      (case escaping h r of None \<Rightarrow> Inr [] | Some e \<Rightarrow> Inl e, ?s4)"
    using assms(7,8)
    by (auto simp: collect_windows_spec sleep_def split: option.splits
        dest: queryWindows_spec_Some)
  have m: "main h a s0 = (case escaping h r of None \<Rightarrow> Inr 1 | Some e \<Rightarrow> Inl e, ?s4)"
    by (simp add: main_primary_path[OF assms(1-5)] assms(6) cw split: option.splits)
  have e1: "events s1 = events s0 @ [Spawn overview_command]"
    using assms(1) by (rule overview_is_open_events)
  have e2: "events s2 = events s1 @ [Spawn windows_command]"
    using assms(3) by (rule collect_windows_events)
  have e3: "events s3 = events s2 @ [Spawn (action_command (primary_action a))]"
    using assms(6) by (rule run_action_events)
  show ?thesis using m e1 e2 e3 by (simp add: exit_status_def split: option.splits)
qed

theorem empty_after_is_failure_witness:
  "main demo_host (demo_args ''focus-window-up'')
       (start [Completed 0 (Text ''closed''), Completed 0 (Text ''seven''), Completed 0 (Text []),
               Completed 0 (Text ''garbage''), Completed 0 (Text [])]) =
     (Inr 1, \<lparr>world = [Completed 0 (Text [])],
          events = [Spawn overview_command, Spawn windows_command,
                    Spawn (action_command ''focus-window-up''), Sleep,
                    Spawn windows_command]\<rparr>)
   \<and> main demo_host (demo_args ''focus-window-up'')
       (start [Completed 0 (Text ''closed''), Completed 0 (Text ''seven''), Completed 0 (Text []),
               Completed 0 Undecodable, Completed 0 (Text [])]) =
     (Inl UnicodeDecodeError, \<lparr>world = [Completed 0 (Text [])],
          events = [Spawn overview_command, Spawn windows_command,
                    Spawn (action_command ''focus-window-up''), Sleep,
                    Spawn windows_command]\<rparr>)"
proof -
  let ?s0 = "\<lambda>r. start [Completed 0 (Text ''closed''), Completed 0 (Text ''seven''),
               Completed 0 (Text []), r, Completed 0 (Text [])]"
  let ?s1 = "\<lambda>r. \<lparr>world = [Completed 0 (Text ''seven''), Completed 0 (Text []), r,
                       Completed 0 (Text [])],
              events = [Spawn overview_command]\<rparr>"
  let ?s2 = "\<lambda>r. \<lparr>world = [Completed 0 (Text []), r, Completed 0 (Text [])],
              events = [Spawn overview_command, Spawn windows_command]\<rparr>"
  let ?s3 = "\<lambda>r. \<lparr>world = [r, Completed 0 (Text [])],
              events = [Spawn overview_command, Spawn windows_command,
                        Spawn (action_command ''focus-window-up'')]\<rparr>"
  have h1: "overview_is_open demo_host (?s0 r) = (Inr (Some False), ?s1 r)" for r
    by (simp add: demo_defs io_defs)
  have h2: "Some False \<noteq> Some True" by simp
  have h3: "collect_windows demo_host (?s1 r) = (Inr [win7], ?s2 r)" for r
    by (simp add: demo_defs io_defs)
  have h4: "focused_window [win7] = Some win7"
    by (simp add: focused_window_def win7_def dict_get_def)
  have h5: "\<not> truthy (dict_get win7 ''is_floating'')"
    by (simp add: win7_def dict_get_def)
  have h6: "run_action demo_host (primary_action (demo_args ''focus-window-up'')) (?s2 r) =
      (True, ?s3 r)" for r
    by (simp add: demo_defs io_defs)
  have h7: "spawn demo_host windows_command (world (?s3 r)) = (r, [Completed 0 (Text [])])" for r
    by (simp add: demo_defs)
  have h8: "queryWindows_spec demo_host (Completed 0 (Text ''garbage'')) = None
      \<or> queryWindows_spec demo_host (Completed 0 (Text ''garbage'')) = Some []"
    by (simp add: queryWindows_spec_def demo_defs)
  have h8': "queryWindows_spec demo_host (Completed 0 Undecodable) = None
      \<or> queryWindows_spec demo_host (Completed 0 Undecodable) = Some []"
    by (simp add: queryWindows_spec_def)
  have g: "escaping demo_host (Completed 0 (Text ''garbage'')) = None"
    by (simp add: escaping_def demo_defs)
  have u: "escaping demo_host (Completed 0 Undecodable) = Some UnicodeDecodeError"
    by (simp add: escaping_def)
  show ?thesis
    using empty_after_is_failure[OF h1 h2 h3 h4 h5 h6 h7 h8]
      empty_after_is_failure[OF h1 h2 h3 h4 h5 h6 h7 h8'] g u
    by (simp add: demo_args_def start_def)
qed

subsection \<open>The decision after the primary action\<close>

text \<open>
  C1. Overview not open, a focused window \<open>fb\<close> in the before set that is not floating, a
  primary action whose name starts with \<^verbatim>\<open>focus-\<close> and that ran successfully, a non-empty
  after set \<open>wa\<close>. Then the fallback action is run if and only if no window of \<open>wa\<close> is
  focused, or the identity of the focused window of \<open>wa\<close> equals (Python's \<^verbatim>\<open>==\<close>) the identity
  of \<open>fb\<close>; otherwise \<^verbatim>\<open>main\<close> returns 0 in the state reached after the second query.
\<close>

theorem focus_action_fallback_iff:
  assumes "overview_is_open h s0 = (Inr ov, s1)" and "ov \<noteq> Some True"
    and "collect_windows h s1 = (Inr wb, s2)"
    and "focused_window wb = Some fb"
    and "\<not> truthy (dict_get fb ''is_floating'')"
    and "startswith (primary_action a) ''focus-''"
    and "run_action h (primary_action a) s2 = (True, s3)"
    and "collect_windows h (sleep s3) = (Inr wa, s4)"
    and "wa \<noteq> []"
  shows "main h a s0 =
           (if (\<forall>u\<in>set wa. \<not> truthy (dict_get u ''is_focused''))
               \<or> (\<exists>fa. focused_window wa = Some fa
                     \<and> identity_eq (window_identity fa) (window_identity fb))
            then return_action h (fallback_action a) s4
            else (Inr 0, s4))
       \<and> (events (snd (main h a s0)) = events s4 @ [Spawn (action_command (fallback_action a))])
           = ((\<forall>u\<in>set wa. \<not> truthy (dict_get u ''is_focused''))
               \<or> (\<exists>fa. focused_window wa = Some fa
                     \<and> identity_eq (window_identity fa) (window_identity fb)))"
proof -
  have n: "(focused_window wa = None) = (\<forall>u\<in>set wa. \<not> truthy (dict_get u ''is_focused''))"
    by (auto simp: focused_window_def find_None_iff)
  have m: "main h a s0 =
           (if (\<forall>u\<in>set wa. \<not> truthy (dict_get u ''is_focused''))
               \<or> (\<exists>fa. focused_window wa = Some fa
                     \<and> identity_eq (window_identity fa) (window_identity fb))
            then return_action h (fallback_action a) s4
            else (Inr 0, s4))"
    using assms(6-9) n
    by (cases "focused_window wa")
       (auto simp: main_primary_path[OF assms(1-5)] is_focus_action_def)
  show ?thesis
    unfolding m by (simp add: return_action_spawn)
qed

theorem focus_action_fallback_iff_witness:
  "main demo_host (demo_args ''focus-window-up'')
       (start [Completed 0 (Text ''closed''), Completed 0 (Text ''seven''), Completed 0 (Text []),
               Completed 0 (Text ''seven''), Completed 0 (Text [])]) =
     (Inr 0, \<lparr>world = [],
          events = [Spawn overview_command, Spawn windows_command,
                    Spawn (action_command ''focus-window-up''), Sleep,
                    Spawn windows_command,
                    Spawn (action_command ''focus-workspace-up'')]\<rparr>)
   \<and> main demo_host (demo_args ''focus-window-up'')
       (start [Completed 0 (Text ''closed''), Completed 0 (Text ''seven''), Completed 0 (Text []),
               Completed 0 (Text ''eight''), Completed 0 (Text [])]) =
     (Inr 0, \<lparr>world = [Completed 0 (Text [])],
          events = [Spawn overview_command, Spawn windows_command,
                    Spawn (action_command ''focus-window-up''), Sleep,
                    Spawn windows_command]\<rparr>)"
proof -
  let ?a = "demo_args ''focus-window-up''"
  let ?s0 = "\<lambda>x. start [Completed 0 (Text ''closed''), Completed 0 (Text ''seven''), Completed 0 (Text []),
               Completed 0 (Text x), Completed 0 (Text [])]"
  let ?s1 = "\<lambda>x. \<lparr>world = [Completed 0 (Text ''seven''), Completed 0 (Text []), Completed 0 (Text x), Completed 0 (Text [])],
              events = [Spawn overview_command]\<rparr>"
  let ?s2 = "\<lambda>x. \<lparr>world = [Completed 0 (Text []), Completed 0 (Text x), Completed 0 (Text [])],
              events = [Spawn overview_command, Spawn windows_command]\<rparr>"
  let ?s3 = "\<lambda>x. \<lparr>world = [Completed 0 (Text x), Completed 0 (Text [])],
              events = [Spawn overview_command, Spawn windows_command,
                        Spawn (action_command ''focus-window-up'')]\<rparr>"
  let ?s4 = "\<lparr>world = [Completed 0 (Text [])],
              events = [Spawn overview_command, Spawn windows_command,
                        Spawn (action_command ''focus-window-up''), Sleep,
                        Spawn windows_command]\<rparr>"
  have h1: "overview_is_open demo_host (?s0 x) = (Inr (Some False), ?s1 x)" for x
    by (simp add: demo_defs io_defs)
  have h2: "Some False \<noteq> Some True" by simp
  have h3: "collect_windows demo_host (?s1 x) = (Inr [win7], ?s2 x)" for x
    by (simp add: demo_defs io_defs)
  have h4: "focused_window [win7] = Some win7"
    by (simp add: focused_window_def win7_def dict_get_def)
  have h5: "\<not> truthy (dict_get win7 ''is_floating'')"
    by (simp add: win7_def dict_get_def)
  have h6: "startswith (primary_action ?a) ''focus-''"
    by (simp add: demo_args_def)
  have h7: "run_action demo_host (primary_action ?a) (?s2 x) = (True, ?s3 x)" for x
    by (simp add: demo_defs io_defs)
  have h8: "collect_windows demo_host (sleep (?s3 ''seven'')) = (Inr [win7], ?s4)"
    by (simp add: demo_defs io_defs)
  have h8': "collect_windows demo_host (sleep (?s3 ''eight'')) = (Inr [win8], ?s4)"
    by (simp add: demo_defs io_defs)
  have h9: "[win7] \<noteq> []" "[win8] \<noteq> []" by simp_all
  have f8: "focused_window [win8] = Some win8"
    by (simp add: focused_window_def win8_def dict_get_def)
  have i7: "identity_eq (window_identity win7) (window_identity win7)"
    by (simp add: window_identity_def candidate_keys_def win7_def dict_get_def)
  have i8: "\<not> identity_eq (window_identity win8) (window_identity win7)"
    by (simp add: window_identity_def candidate_keys_def win7_def win8_def dict_get_def)
  have t8: "truthy (dict_get win8 ''is_focused'')"
    by (simp add: win8_def dict_get_def)
  have ra: "return_action demo_host (fallback_action ?a) ?s4 =
      (Inr 0, \<lparr>world = [],
          events = [Spawn overview_command, Spawn windows_command,
                    Spawn (action_command ''focus-window-up''), Sleep,
                    Spawn windows_command,
                    Spawn (action_command ''focus-workspace-up'')]\<rparr>)"
    by (simp add: demo_defs io_defs)
  have A: "main demo_host ?a (?s0 ''seven'') = return_action demo_host (fallback_action ?a) ?s4"
    using focus_action_fallback_iff[OF h1 h2 h3 h4 h5 h6 h7 h8 h9(1)] h4 i7 by simp
  have B: "main demo_host ?a (?s0 ''eight'') = (Inr 0, ?s4)"
    using focus_action_fallback_iff[OF h1 h2 h3 h4 h5 h6 h7 h8' h9(2)] f8 i8 t8 by simp
  show ?thesis using A B ra by simp
qed

text \<open>
  C2. The same path with a primary action whose name does not start with \<^verbatim>\<open>focus-\<close>. If no
  window of the after set has an identity equal to that of \<open>fb\<close>, \<^verbatim>\<open>main\<close> returns 0 without
  running the fallback action. If \<open>mw\<close> is the first window of the after set with that
  identity, the fallback action is run if and only if the snapshot of \<open>mw\<close> equals the
  snapshot of \<open>fb\<close>.
\<close>

theorem move_action_fallback_iff:
  assumes "overview_is_open h s0 = (Inr ov, s1)" and "ov \<noteq> Some True"
    and "collect_windows h s1 = (Inr wb, s2)"
    and "focused_window wb = Some fb"
    and "\<not> truthy (dict_get fb ''is_floating'')"
    and "\<not> startswith (primary_action a) ''focus-''"
    and "run_action h (primary_action a) s2 = (True, s3)"
    and "collect_windows h (sleep s3) = (Inr wa, s4)"
    and "wa \<noteq> []"
  shows "((\<forall>u\<in>set wa. \<not> identity_eq (window_identity u) (window_identity fb)) \<longrightarrow>
            main h a s0 = (Inr 0, s4))
       \<and> (\<forall>pre mw post.
            wa = pre @ mw # post
            \<and> (\<forall>u\<in>set pre. \<not> identity_eq (window_identity u) (window_identity fb))
            \<and> identity_eq (window_identity mw) (window_identity fb) \<longrightarrow>
            main h a s0 =
              (if window_snapshot (float_repr h) mw = window_snapshot (float_repr h) fb
               then return_action h (fallback_action a) s4
               else (Inr 0, s4))
            \<and> (events (snd (main h a s0)) =
                  events s4 @ [Spawn (action_command (fallback_action a))])
               = (window_snapshot (float_repr h) mw = window_snapshot (float_repr h) fb))"
proof -
  have A: "main h a s0 = (Inr 0, s4)"
    if "\<forall>u\<in>set wa. \<not> identity_eq (window_identity u) (window_identity fb)"
  proof -
    have "find_window_by_identity wa (window_identity fb) = None"
      using that by (simp add: find_window_by_identity_def find_None_iff)
    then show ?thesis
      using assms(6-9) by (simp add: main_primary_path[OF assms(1-5)] is_focus_action_def)
  qed
  have B: "main h a s0 =
              (if window_snapshot (float_repr h) mw = window_snapshot (float_repr h) fb
               then return_action h (fallback_action a) s4
               else (Inr 0, s4))
            \<and> (events (snd (main h a s0)) =
                  events s4 @ [Spawn (action_command (fallback_action a))])
               = (window_snapshot (float_repr h) mw = window_snapshot (float_repr h) fb)"
    if "wa = pre @ mw # post"
      and "\<forall>u\<in>set pre. \<not> identity_eq (window_identity u) (window_identity fb)"
      and "identity_eq (window_identity mw) (window_identity fb)"
    for pre mw post
  proof -
    have "find_window_by_identity wa (window_identity fb) = Some mw"
      using that by (simp add: find_window_by_identity_def find_append_first)
    then have m: "main h a s0 =
              (if window_snapshot (float_repr h) mw = window_snapshot (float_repr h) fb
               then return_action h (fallback_action a) s4
               else (Inr 0, s4))"
      using assms(6-9) by (simp add: main_primary_path[OF assms(1-5)] is_focus_action_def)
    show ?thesis unfolding m by (simp add: return_action_spawn)
  qed
  from A B show ?thesis by blast
qed

theorem move_action_fallback_iff_witness:
  "main demo_host (demo_args ''move-window-up'')
       (start [Completed 0 (Text ''closed''), Completed 0 (Text ''seven''), Completed 0 (Text []),
               Completed 0 (Text ''moved''), Completed 0 (Text [])]) =
     (Inr 0, \<lparr>world = [Completed 0 (Text [])],
          events = [Spawn overview_command, Spawn windows_command,
                    Spawn (action_command ''move-window-up''), Sleep,
                    Spawn windows_command]\<rparr>)
   \<and> main demo_host (demo_args ''move-window-up'')
       (start [Completed 0 (Text ''closed''), Completed 0 (Text ''seven''), Completed 0 (Text []),
               Completed 0 (Text ''eight''), Completed 0 (Text [])]) =
     (Inr 0, \<lparr>world = [Completed 0 (Text [])],
          events = [Spawn overview_command, Spawn windows_command,
                    Spawn (action_command ''move-window-up''), Sleep,
                    Spawn windows_command]\<rparr>)
   \<and> main demo_host (demo_args ''move-window-up'')
       (start [Completed 0 (Text ''closed''), Completed 0 (Text ''seven''), Completed 0 (Text []),
               Completed 0 (Text ''seven''), Completed 0 (Text [])]) =
     (Inr 0, \<lparr>world = [],
          events = [Spawn overview_command, Spawn windows_command,
                    Spawn (action_command ''move-window-up''), Sleep,
                    Spawn windows_command,
                    Spawn (action_command ''focus-workspace-up'')]\<rparr>)"
proof -
  let ?a = "demo_args ''move-window-up''"
  let ?m7 = "dict_set win7 ''column_index'' (JInt 3)"
  let ?s0 = "\<lambda>x. start [Completed 0 (Text ''closed''), Completed 0 (Text ''seven''), Completed 0 (Text []),
               Completed 0 (Text x), Completed 0 (Text [])]"
  let ?s1 = "\<lambda>x. \<lparr>world = [Completed 0 (Text ''seven''), Completed 0 (Text []), Completed 0 (Text x), Completed 0 (Text [])],
              events = [Spawn overview_command]\<rparr>"
  let ?s2 = "\<lambda>x. \<lparr>world = [Completed 0 (Text []), Completed 0 (Text x), Completed 0 (Text [])],
              events = [Spawn overview_command, Spawn windows_command]\<rparr>"
  let ?s3 = "\<lambda>x. \<lparr>world = [Completed 0 (Text x), Completed 0 (Text [])],
              events = [Spawn overview_command, Spawn windows_command,
                        Spawn (action_command ''move-window-up'')]\<rparr>"
  let ?s4 = "\<lparr>world = [Completed 0 (Text [])],
              events = [Spawn overview_command, Spawn windows_command,
                        Spawn (action_command ''move-window-up''), Sleep,
                        Spawn windows_command]\<rparr>"
  have h1: "overview_is_open demo_host (?s0 x) = (Inr (Some False), ?s1 x)" for x
    by (simp add: demo_defs io_defs)
  have h2: "Some False \<noteq> Some True" by simp
  have h3: "collect_windows demo_host (?s1 x) = (Inr [win7], ?s2 x)" for x
    by (simp add: demo_defs io_defs)
  have h4: "focused_window [win7] = Some win7"
    by (simp add: focused_window_def win7_def dict_get_def)
  have h5: "\<not> truthy (dict_get win7 ''is_floating'')"
    by (simp add: win7_def dict_get_def)
  have h6: "\<not> startswith (primary_action ?a) ''focus-''"
    by (simp add: demo_args_def)
  have h7: "run_action demo_host (primary_action ?a) (?s2 x) = (True, ?s3 x)" for x
    by (simp add: demo_defs io_defs)
  have h8: "collect_windows demo_host (sleep (?s3 ''moved'')) = (Inr [?m7], ?s4)"
    by (simp add: demo_defs io_defs)
  have h8': "collect_windows demo_host (sleep (?s3 ''eight'')) = (Inr [win8], ?s4)"
    by (simp add: demo_defs io_defs)
  have h8'': "collect_windows demo_host (sleep (?s3 ''seven'')) = (Inr [win7], ?s4)"
    by (simp add: demo_defs io_defs)
  have h9: "[?m7] \<noteq> []" "[win8] \<noteq> []" "[win7] \<noteq> []" by simp_all
  have i7: "identity_eq (window_identity ?m7) (window_identity win7)"
    by (simp add: window_identity_def candidate_keys_def win7_def dict_get_def dict_set_def)
  have i7': "identity_eq (window_identity win7) (window_identity win7)"
    by (simp add: window_identity_def candidate_keys_def win7_def dict_get_def)
  have i8: "\<forall>u\<in>set [win8]. \<not> identity_eq (window_identity u) (window_identity win7)"
    by (simp add: window_identity_def candidate_keys_def win7_def win8_def dict_get_def)
  have sn: "window_snapshot (float_repr demo_host) ?m7
      \<noteq> window_snapshot (float_repr demo_host) win7"
    by (simp add: window_snapshot_def win7_def dict_set_def dict_get_def
        encode_basestring_ascii_def esc_char_def int_repr_def demo_host_def)
  have ra: "return_action demo_host (fallback_action ?a) ?s4 =
      (Inr 0, \<lparr>world = [],
          events = [Spawn overview_command, Spawn windows_command,
                    Spawn (action_command ''move-window-up''), Sleep,
                    Spawn windows_command,
                    Spawn (action_command ''focus-workspace-up'')]\<rparr>)"
    by (simp add: demo_defs io_defs)
  have A: "main demo_host ?a (?s0 ''moved'') = (Inr 0, ?s4)"
    using move_action_fallback_iff[OF h1 h2 h3 h4 h5 h6 h7 h8 h9(1), THEN conjunct2,
        THEN spec, THEN spec, THEN spec, of "[]" ?m7 "[]"] i7 sn
    by simp
  have B: "main demo_host ?a (?s0 ''eight'') = (Inr 0, ?s4)"
    using move_action_fallback_iff[OF h1 h2 h3 h4 h5 h6 h7 h8' h9(2), THEN conjunct1] i8
    by simp
  have C: "main demo_host ?a (?s0 ''seven'') = return_action demo_host (fallback_action ?a) ?s4"
    using move_action_fallback_iff[OF h1 h2 h3 h4 h5 h6 h7 h8'' h9(3), THEN conjunct2,
        THEN spec, THEN spec, THEN spec, of "[]" win7 "[]"] i7'
    by simp
  show ?thesis using A B C ra by simp
qed

subsection \<open>Strings\<close>

text \<open>\<open>startswith\<close> is the prefix test and \<open>str_contains\<close> the substring test.\<close>

lemma startswith_iff: "startswith s p = (\<exists>suf. s = p @ suf)"
  by (induction s p rule: startswith.induct) auto

lemma str_contains_iff: "str_contains sub s = (\<exists>pre suf. s = pre @ sub @ suf)"
proof (induction s)
  case Nil
  then show ?case by simp
next
  case (Cons c cs)
  show ?case
  proof
    assume "str_contains sub (c # cs)"
    then consider "startswith (c # cs) sub" | "str_contains sub cs" by auto
    then show "\<exists>pre suf. c # cs = pre @ sub @ suf"
    proof cases
      case 1
      then obtain suf where "c # cs = sub @ suf" by (auto simp: startswith_iff)
      then have "c # cs = [] @ sub @ suf" by simp
      then show ?thesis by blast
    next
      case 2
      then obtain pre suf where "cs = pre @ sub @ suf" using Cons.IH by auto
      then have "c # cs = (c # pre) @ sub @ suf" by simp
      then show ?thesis by blast
    qed
  next
    assume "\<exists>pre suf. c # cs = pre @ sub @ suf"
    then obtain pre suf where e: "c # cs = pre @ sub @ suf" by auto
    show "str_contains sub (c # cs)"
    proof (cases pre)
      case Nil
      with e have "startswith (c # cs) sub" by (auto simp: startswith_iff)
      then show ?thesis by simp
    next
      case (Cons p ps)
      with e have "cs = ps @ sub @ suf" by simp
      then have "str_contains sub cs" using Cons.IH by auto
      then show ?thesis by simp
    qed
  qed
qed

subsection \<open>The focused window\<close>

text \<open>
  C9. \<open>focused_window\<close> returns the first window, in the order of the query, whose
  \<^verbatim>\<open>is_focused\<close> value is truthy, whatever follows it, so of several focused windows the
  earliest is taken. A flag that is present but false, null, zero or the empty string is
  not truthy, and a window carrying it is passed over. \<^verbatim>\<open>main\<close> applies \<open>focused_window\<close> to
  the before set and, for a focus action, to the after set.
\<close>

theorem focused_window_first:
  assumes "\<forall>u\<in>set pre. \<not> truthy (dict_get u ''is_focused'')"
    and "truthy (dict_get w ''is_focused'')"
  shows "focused_window (pre @ w # post) = Some w
       \<and> (\<forall>u v. map_of u ''is_focused'' = Some v
              \<and> v \<in> {JBool False, JNull, JInt 0, JFloat (Fin 0), JFloat NegZero, JStr []}
            \<longrightarrow> \<not> truthy (dict_get u ''is_focused'')
                \<and> focused_window (u # pre @ w # post) = Some w)"
proof -
  have A: "focused_window (pre @ w # post) = Some w"
    using assms by (simp add: focused_window_def find_append_first)
  have B: "\<not> truthy (dict_get u ''is_focused'')"
    if "map_of u ''is_focused'' = Some v"
      and "v \<in> {JBool False, JNull, JInt 0, JFloat (Fin 0), JFloat NegZero, JStr []}"
    for u v
    using that by (auto simp: dict_get_def)
  have C: "focused_window (u # pre @ w # post) = Some w"
    if "\<not> truthy (dict_get u ''is_focused'')" for u
    using that A by (simp add: focused_window_def)
  from A B C show ?thesis by blast
qed

theorem focused_window_first_witness:
  "focused_window
     ([[(''id'', JInt 6), (''is_focused'', JInt 0)], [(''id'', JInt 5)]] @ win7 # [win8]) = Some win7
   \<and> focused_window
     ([(''id'', JInt 4), (''is_focused'', JStr [])] #
      [[(''id'', JInt 6), (''is_focused'', JInt 0)], [(''id'', JInt 5)]] @ win7 # [win8]) = Some win7"
proof -
  have h1: "\<forall>u\<in>set [[(''id'', JInt 6), (''is_focused'', JInt 0)], [(''id'', JInt 5)]].
      \<not> truthy (dict_get u ''is_focused'')"
    by (simp add: dict_get_def)
  have h2: "truthy (dict_get win7 ''is_focused'')"
    by (simp add: dict_get_def win7_def)
  have h3: "map_of [(''id'', JInt 4), (''is_focused'', JStr [])] ''is_focused'' = Some (JStr [])"
    by simp
  show ?thesis
    using focused_window_first[OF h1 h2, of "[win8]"] h3 by blast
qed

subsection \<open>The identity of a window\<close>

lemma first_scalar_append:
  "\<forall>k\<in>set pre. \<not> isinstance_str_int (dict_get win k) \<Longrightarrow>
     first_scalar win (pre @ keys) = first_scalar win keys"
  by (induction pre) (auto simp: Let_def)

lemma first_scalar_Nil:
  "\<forall>k\<in>set keys. \<not> isinstance_str_int (dict_get win k) \<Longrightarrow> first_scalar win keys = []"
  by (induction keys) (auto simp: Let_def)

lemma py_eq_list_refl: "\<forall>x\<in>set xs. py_eq x x \<Longrightarrow> py_eq_list xs xs"
  by (induction xs) auto

lemma py_eq_items_sub:
  "distinct (map fst e) \<Longrightarrow> set d \<subseteq> set e \<Longrightarrow> \<forall>kv\<in>set d. py_eq (snd kv) (snd kv) \<Longrightarrow>
     py_eq_items d e"
proof (induction d)
  case Nil
  then show ?case by simp
next
  case (Cons kv d)
  from Cons.prems have m: "map_of e (fst kv) = Some (snd kv)"
    by (cases kv) (simp add: map_of_eq_Some_iff)
  from Cons have r: "py_eq_items d e" "py_eq (snd kv) (snd kv)"
    by simp_all
  show ?case by (simp only: py_eq_items.simps m option.case r simp_thms)
qed

lemma py_eq_float_refl: "py_eq (JFloat f) (JFloat f)"
  by (cases f) simp_all

lemma py_eq_refl: "wf_json v \<Longrightarrow> py_eq v v"
proof (induction v rule: wf_json.induct)
  case (1 xs)
  then show ?case by (auto simp: list_all_iff intro!: py_eq_list_refl)
next
  case (2 d)
  then show ?case by (auto simp: list_all_iff intro!: py_eq_items_sub)
qed (simp_all add: py_eq_float_refl)

lemma identity_eq_refl: "\<forall>kv\<in>set xs. py_eq (snd kv) (snd kv) \<Longrightarrow> identity_eq xs xs"
  by (induction xs) auto

lemma wf_json_dict_get: "wf_json (JObj win) \<Longrightarrow> wf_json (dict_get win k)"
  by (auto simp: dict_get_def list_all_iff split: option.splits dest!: map_of_SomeD)

lemma first_scalar_values:
  "kv \<in> set (first_scalar win keys) \<Longrightarrow> snd kv = dict_get win (fst kv)"
  by (induction keys) (auto simp: Let_def split: if_splits)

lemma window_identity_values:
  "kv \<in> set (window_identity win) \<Longrightarrow> snd kv = dict_get win (fst kv)"
  by (auto simp: window_identity_def Let_def fallback_keys_def split: if_splits dest: first_scalar_values)

text \<open>
  C5 (as amended). \<open>window_identity\<close> is a function of the window alone. It returns the single
  pair of the first key, in the order \<^verbatim>\<open>persistent_id\<close>, \<^verbatim>\<open>window_id\<close>, \<^verbatim>\<open>id\<close>, \<^verbatim>\<open>surface_id\<close>,
  \<^verbatim>\<open>toplevel_id\<close>, \<^verbatim>\<open>wayland_id\<close>, whose value is text, an integer or a boolean. If no such key
  exists it returns the four pairs of \<^verbatim>\<open>workspace_id\<close>, \<^verbatim>\<open>app_id\<close>, \<^verbatim>\<open>title\<close> and \<^verbatim>\<open>pid\<close>, with
  \<^verbatim>\<open>None\<close> for an absent value. The result is never empty, and the identity of a window
  equals itself under Python's \<^verbatim>\<open>==\<close>.
\<close>

theorem window_identity_first_scalar:
  "(\<forall>pre key post.
      candidate_keys = pre @ key # post
      \<and> (\<forall>k\<in>set pre. \<not> isinstance_str_int (dict_get win k))
      \<and> isinstance_str_int (dict_get win key) \<longrightarrow>
      window_identity win = [(key, dict_get win key)])
   \<and> ((\<forall>k\<in>set candidate_keys. \<not> isinstance_str_int (dict_get win k)) \<longrightarrow>
      window_identity win =
        [(''workspace_id'', dict_get win ''workspace_id''), (''app_id'', dict_get win ''app_id''),
         (''title'', dict_get win ''title''), (''pid'', dict_get win ''pid'')])
   \<and> window_identity win \<noteq> []
   \<and> (wf_json (JObj win) \<longrightarrow> identity_eq (window_identity win) (window_identity win))
   \<and> candidate_keys =
        [''persistent_id'', ''window_id'', ''id'', ''surface_id'', ''toplevel_id'', ''wayland_id'']
   \<and> (\<forall>v. isinstance_str_int v =
        ((\<exists>s. v = JStr s) \<or> (\<exists>i. v = JInt i) \<or> (\<exists>b. v = JBool b)))"
proof -
  have A: "window_identity win = [(key, dict_get win key)]"
    if "candidate_keys = pre @ key # post"
      and "\<forall>k\<in>set pre. \<not> isinstance_str_int (dict_get win k)"
      and "isinstance_str_int (dict_get win key)"
    for pre key post
    unfolding window_identity_def that(1)
    by (simp add: first_scalar_append[OF that(2)] that(3) Let_def)
  have B: "window_identity win =
        [(''workspace_id'', dict_get win ''workspace_id''), (''app_id'', dict_get win ''app_id''),
         (''title'', dict_get win ''title''), (''pid'', dict_get win ''pid'')]"
    if "\<forall>k\<in>set candidate_keys. \<not> isinstance_str_int (dict_get win k)"
    using that by (simp add: window_identity_def first_scalar_Nil fallback_keys_def)
  have C: "window_identity win \<noteq> []"
    by (simp add: window_identity_def Let_def fallback_keys_def)
  have D: "identity_eq (window_identity win) (window_identity win)" if "wf_json (JObj win)"
  proof (rule identity_eq_refl, rule ballI)
    fix kv assume "kv \<in> set (window_identity win)"
    then have "snd kv = dict_get win (fst kv)" by (rule window_identity_values)
    then show "py_eq (snd kv) (snd kv)"
      using wf_json_dict_get[OF that] py_eq_refl by simp
  qed
  have E: "isinstance_str_int v =
        ((\<exists>s. v = JStr s) \<or> (\<exists>i. v = JInt i) \<or> (\<exists>b. v = JBool b))" for v
    by (cases v) simp_all
  from A B C D E show ?thesis
    by (simp add: candidate_keys_def)
qed

theorem window_identity_first_scalar_witness:
  "window_identity win7 = [(''id'', JInt 7)]
   \<and> window_identity bool_id_window = [(''persistent_id'', JBool True)]
   \<and> window_identity [(''title'', JStr ''term''), (''pid'', JFloat NaN)] =
       [(''workspace_id'', JNull), (''app_id'', JNull), (''title'', JStr ''term''),
        (''pid'', JFloat NaN)]
   \<and> identity_eq (window_identity [(''title'', JStr ''term''), (''pid'', JFloat NaN)])
       (window_identity [(''title'', JStr ''term''), (''pid'', JFloat NaN)])"
proof -
  let ?w = "[(''title'', JStr ''term''), (''pid'', JFloat NaN)]"
  have k: "candidate_keys = [''persistent_id'', ''window_id''] @ ''id'' # [''surface_id'', ''toplevel_id'', ''wayland_id'']"
    by (simp add: candidate_keys_def)
  have k': "candidate_keys = [] @ ''persistent_id'' # [''window_id'', ''id'', ''surface_id'', ''toplevel_id'', ''wayland_id'']"
    by (simp add: candidate_keys_def)
  have p: "\<forall>k\<in>set [''persistent_id'', ''window_id'']. \<not> isinstance_str_int (dict_get win7 k)"
    by (simp add: win7_def dict_get_def)
  have q: "isinstance_str_int (dict_get win7 ''id'')" "dict_get win7 ''id'' = JInt 7"
    by (simp_all add: win7_def dict_get_def)
  have b: "isinstance_str_int (dict_get bool_id_window ''persistent_id'')"
    "dict_get bool_id_window ''persistent_id'' = JBool True"
    by (simp_all add: bool_id_window_def dict_get_def)
  have n: "\<forall>k\<in>set candidate_keys. \<not> isinstance_str_int (dict_get ?w k)"
    by (simp add: candidate_keys_def dict_get_def)
  have g: "dict_get ?w ''workspace_id'' = JNull" "dict_get ?w ''app_id'' = JNull"
    "dict_get ?w ''title'' = JStr ''term''" "dict_get ?w ''pid'' = JFloat NaN"
    by (simp_all add: dict_get_def)
  have wf: "wf_json (JObj ?w)" by simp
  have A: "window_identity win7 = [(''id'', JInt 7)]"
    using window_identity_first_scalar[of win7, THEN conjunct1, THEN spec, THEN spec, THEN spec,
        of "[''persistent_id'', ''window_id'']" "''id''"
           "[''surface_id'', ''toplevel_id'', ''wayland_id'']"] k p q
    by simp
  have B: "window_identity bool_id_window = [(''persistent_id'', JBool True)]"
    using window_identity_first_scalar[of bool_id_window, THEN conjunct1, THEN spec, THEN spec,
        THEN spec, of "[]" "''persistent_id''"
           "[''window_id'', ''id'', ''surface_id'', ''toplevel_id'', ''wayland_id'']"] k' b
    by simp
  have C: "window_identity ?w =
       [(''workspace_id'', JNull), (''app_id'', JNull), (''title'', JStr ''term''),
        (''pid'', JFloat NaN)]"
    using window_identity_first_scalar[of ?w, THEN conjunct2, THEN conjunct1] n g by simp
  have D: "identity_eq (window_identity ?w) (window_identity ?w)"
    using window_identity_first_scalar[of ?w, THEN conjunct2, THEN conjunct2, THEN conjunct2,
        THEN conjunct1] wf
    by simp
  from A B C D show ?thesis by simp
qed

text \<open>
  C5 as stated fails for a boolean: \<^verbatim>\<open>persistent_id\<close> is \<^verbatim>\<open>true\<close>, which is neither text nor an
  integer, and \<^verbatim>\<open>window_id\<close> is the integer 5; the identity is built from \<^verbatim>\<open>persistent_id\<close>,
  because \<^verbatim>\<open>isinstance(True, (str, int))\<close> holds.
\<close>

theorem window_identity_bool_counterexample:
  "candidate_keys =
     [''persistent_id''] @ ''window_id'' # [''id'', ''surface_id'', ''toplevel_id'', ''wayland_id'']
   \<and> \<not> is_text_or_integer (dict_get bool_id_window ''persistent_id'')
   \<and> is_text_or_integer (dict_get bool_id_window ''window_id'')
   \<and> window_identity bool_id_window \<noteq> [(''window_id'', dict_get bool_id_window ''window_id'')]
   \<and> window_identity bool_id_window = [(''persistent_id'', JBool True)]"
  by (simp add: candidate_keys_def is_text_or_integer_def bool_id_window_def dict_get_def
      window_identity_def)

subsection \<open>The layout snapshot\<close>

text \<open>
  Two texts the encoder produces; Python prints the same for the same values.
\<close>

lemma dumps_example:
  "dumps fr (JList [JInt (- 12), JBool True, JNull, JFloat NegZero, JStr [CHR ''a'', CHR 0x0A, CHR 0xE9],
       JObj [(''b'', JList []), (''a'', JObj [])]]) =
     ''[-12, true, null, -0.0, '' @ [CHR 0x22] @ ''a'' @ [CHR 0x5C] @ ''n'' @ [CHR 0x5C] @ ''u00e9'' @ [CHR 0x22] @
     '', {'' @ [CHR 0x22] @ ''a'' @ [CHR 0x22] @ '': {}, '' @ [CHR 0x22] @ ''b'' @ [CHR 0x22] @ '': []}]''"
  by (simp add: encode_basestring_ascii_def esc_char_def int_repr_def hexdigit_def)

lemma window_snapshot_example:
  "window_snapshot fr win7 =
     ''{'' @ [CHR 0x22] @ ''column_index'' @ [CHR 0x22] @ '': 2, '' @
     [CHR 0x22] @ ''layout'' @ [CHR 0x22] @ '': null, '' @
     [CHR 0x22] @ ''workspace_id'' @ [CHR 0x22] @ '': 1}''"
  by (simp add: window_snapshot_def win7_def dict_set_def dict_get_def
      encode_basestring_ascii_def esc_char_def int_repr_def)

lemma distinct_map_sort_key: "distinct (map f (sort_key f xs)) = distinct (map f xs)"
  by (simp add: distinct_map)

lemma sort_key_unique:
  fixes xs ys :: "('k::linorder \<times> 'v) list"
  assumes "distinct (map fst xs)" and "distinct (map fst ys)" and "set xs = set ys"
  shows "sort_key fst xs = sort_key fst ys"
proof (rule map_sorted_distinct_set_unique[where f = fst])
  have "inj_on fst (set xs)" using assms(1) by (simp add: distinct_map)
  then show "inj_on fst (set (sort_key fst xs) \<union> set (sort_key fst ys))"
    using assms(3) by simp
  show "sorted (map fst (sort_key fst xs))" "sorted (map fst (sort_key fst ys))"
    by (rule sorted_sort_key)+
  show "distinct (map fst (sort_key fst xs))" "distinct (map fst (sort_key fst ys))"
    using assms(1,2) by (simp_all add: distinct_map_sort_key)
  show "set (sort_key fst xs) = set (sort_key fst ys)"
    using assms(3) by simp
qed

lemma fold_step_distinct:
  "distinct (map fst s) \<Longrightarrow>
     distinct (map fst (fold (\<lambda>(key, value) snapshot.
        if str_contains ''column'' key then dict_set snapshot key value else snapshot) w s))"
  by (induction w arbitrary: s) (auto simp: dict_set_def distinct_update)

lemma map_of_filter_absent:
  "k \<notin> fst ` set w \<Longrightarrow> map_of (filter P w) k = None"
  by (auto simp: map_of_eq_None_iff image_iff)

lemma fold_step_map_of:
  "distinct (map fst w) \<Longrightarrow>
     map_of (fold (\<lambda>(key, value) snapshot.
        if str_contains ''column'' key then dict_set snapshot key value else snapshot) w s) k =
     (case map_of (filter (\<lambda>(k, v). str_contains ''column'' k) w) k of
        Some v \<Rightarrow> Some v
      | None \<Rightarrow> map_of s k)"
proof (induction w arbitrary: s)
  case Nil
  then show ?case by simp
next
  case (Cons kv w)
  obtain k0 v0 where kv: "kv = (k0, v0)" by (cases kv)
  from Cons.prems kv have d: "distinct (map fst w)" and n: "k0 \<notin> fst ` set w" by auto
  have a: "map_of (filter (\<lambda>(k, v). str_contains ''column'' k) w) k0 = None"
    using n by (rule map_of_filter_absent)
  show ?case
    using a by (auto simp: kv Cons.IH[OF d] dict_set_def update_conv' split: option.splits)
qed

text \<open>
  C6. Two windows with the same \<^verbatim>\<open>workspace_id\<close> value, the same \<^verbatim>\<open>layout\<close> value and the same set
  of items whose key contains \<^verbatim>\<open>column\<close> have the same snapshot, whatever the order of their
  keys and whatever their other fields hold. An absent value and \<^verbatim>\<open>null\<close> count as the same
  value.
\<close>

theorem window_snapshot_order_independent:
  assumes "wf_dict w1" and "wf_dict w2"
    and "dict_get w1 ''workspace_id'' = dict_get w2 ''workspace_id''"
    and "dict_get w1 ''layout'' = dict_get w2 ''layout''"
    and "set (filter (\<lambda>(k, v). str_contains ''column'' k) w1) =
         set (filter (\<lambda>(k, v). str_contains ''column'' k) w2)"
  shows "window_snapshot fr w1 = window_snapshot fr w2"
proof -
  let ?col = "\<lambda>(k, v). str_contains ''column'' (k::string)"
  let ?step = "\<lambda>(key, value) snapshot.
        if str_contains ''column'' key then dict_set snapshot key value else snapshot"
  let ?init = "\<lambda>w. [(''workspace_id'', dict_get w ''workspace_id''),
                     (''layout'', dict_get w ''layout'')]"
  let ?snap = "\<lambda>w. fold ?step w (?init w)"
  have d1: "distinct (map fst w1)" and d2: "distinct (map fst w2)"
    using assms(1,2) by (simp_all add: wf_dict_def)
  have f1: "distinct (map fst (filter ?col w1))" and f2: "distinct (map fst (filter ?col w2))"
    using d1 d2 by (simp_all add: distinct_map_filter)
  have cols: "map_of (filter ?col w1) = map_of (filter ?col w2)"
    using assms(5) f1 f2 by (simp add: map_of_inject_set)
  have i: "?init w1 = ?init w2" using assms(3,4) by simp
  have ds: "distinct (map fst (?snap w1))" "distinct (map fst (?snap w2))"
    by (rule fold_step_distinct, simp)+
  have "map_of (?snap w1) k = map_of (?snap w2) k" for k
    unfolding fold_step_map_of[OF d1] fold_step_map_of[OF d2] cols i ..
  then have "map_of (?snap w1) = map_of (?snap w2)" by (rule ext)
  then have "set (?snap w1) = set (?snap w2)"
    using ds by (simp add: map_of_inject_set)
  then have "sort_key fst (?snap w1) = sort_key fst (?snap w2)"
    using ds by (intro sort_key_unique)
  then show ?thesis
    by (simp add: window_snapshot_def Let_def)
qed

theorem window_snapshot_order_independent_witness:
  "window_snapshot (\<lambda>q. ''0.0'') shuffled_a = window_snapshot (\<lambda>q. ''0.0'') shuffled_b"
proof -
  have h1: "wf_dict shuffled_a" by (simp add: wf_dict_def shuffled_a_def)
  have h2: "wf_dict shuffled_b" by (simp add: wf_dict_def shuffled_b_def)
  have h3: "dict_get shuffled_a ''workspace_id'' = dict_get shuffled_b ''workspace_id''"
    by (simp add: dict_get_def shuffled_a_def shuffled_b_def)
  have h4: "dict_get shuffled_a ''layout'' = dict_get shuffled_b ''layout''"
    by (simp add: dict_get_def shuffled_a_def shuffled_b_def)
  have h5: "set (filter (\<lambda>(k, v). str_contains ''column'' k) shuffled_a) =
         set (filter (\<lambda>(k, v). str_contains ''column'' k) shuffled_b)"
    by (simp add: shuffled_a_def shuffled_b_def insert_commute)
  show ?thesis
    using window_snapshot_order_independent[OF h1 h2 h3 h4 h5] .
qed

end
